theory Spec2Isabelle
  imports
    Main
    "HOL-Library.Sublist"
    "HOL-Library.AList"
    "HOL-Library.Word"
    "HOL-Library.Char_ord"
    "HOL-Library.List_Lexorder"
    "HOL-Library.Multiset"
begin

section \<open>Python strings\<close>

text \<open>
  A Python \<open>str\<close> is modelled as a \<^typ>\<open>string\<close>: each \<^typ>\<open>char\<close> stands for one code
  point below 256 (ASCII and Latin-1), which covers every keyword, pattern and stop word of the
  source. \<open>w in s\<close> on strings is \<^const>\<open>sublist\<close>; string comparison is the lexicographic
  order on code points.
\<close>

text \<open>\<open>str.lower()\<close> on code points below 256: A-Z and the Latin-1 capitals (all of
  0xC0-0xDE but the multiplication sign 0xD7) move up by 32, everything else stays.\<close>

definition lower_char :: "char \<Rightarrow> char" where
  "lower_char c =
     (let n = (of_char c :: nat)
      in if (65 \<le> n \<and> n \<le> 90) \<or> (192 \<le> n \<and> n \<le> 222 \<and> n \<noteq> 215)
         then char_of (n + 32) else c)"

definition lower :: "string \<Rightarrow> string" where
  "lower s = map lower_char s"

text \<open>\<open>str.isspace()\<close> on one code point below 256; the same set drives \<open>str.split()\<close>,
  \<open>str.strip()\<close> and the regular expression class \<open>\S\<close>.\<close>

definition isspace :: "char \<Rightarrow> bool" where
  "isspace c =
     (let n = (of_char c :: nat)
      in (9 \<le> n \<and> n \<le> 13) \<or> (28 \<le> n \<and> n \<le> 32) \<or> n = 133 \<or> n = 160)"

text \<open>\<open>any(word in text for word in words)\<close>.\<close>

definition any_in :: "string list \<Rightarrow> string \<Rightarrow> bool" where
  "any_in ws s = list_ex (\<lambda>w. sublist w s) ws"

text \<open>\<open>d.get(key, "")\<close> on an optional string entry.\<close>

definition get_str :: "string option \<Rightarrow> string" where
  "get_str v = (case v of None \<Rightarrow> [] | Some x \<Rightarrow> x)"

section \<open>Keyword classifier: \<open>detect_issue_keywords\<close>\<close>

definition issue_patterns :: "(string \<times> string list) list" where
  "issue_patterns =
    [(''bug'', [''bug'', ''bugs'', ''buggy'', ''defect'', ''error'', ''broken'']),
     (''failure'', [''failure'', ''failed'', ''failing'', ''fails'', ''crash'', ''crashed'',
                    ''crashing'']),
     (''problem'', [''problem'', ''problems'', ''issue'', ''issues'', ''trouble'', ''wrong'']),
     (''malfunction'', [''malfunction'', ''not working'', ''doesn't work'', ''stopped working'']),
     (''performance'', [''slow'', ''performance'', ''lag'', ''timeout'', ''bottleneck'']),
     (''critical'', [''critical'', ''urgent'', ''emergency'', ''blocker'', ''show-stopper'',
                     ''showstopper'']),
     (''regression'', [''regression'', ''broke'', ''used to work'', ''was working'']),
     (''hardware'', [''hardware issue'', ''pcb'', ''component failure'', ''short circuit'',
                     ''thermal'']),
     (''firmware'', [''firmware bug'', ''software issue'', ''code problem'', ''logic error''])]"

text \<open>The loop over \<open>issue_patterns.items()\<close>, appending to \<open>detected_types\<close>.\<close>

fun detect_loop :: "string \<Rightarrow> (string \<times> string list) list \<Rightarrow> string list \<Rightarrow> string list" where
  "detect_loop text_lower [] detected_types = detected_types"
| "detect_loop text_lower ((issue_type, keywords) # rest) detected_types =
     detect_loop text_lower rest
       (if any_in keywords text_lower then detected_types @ [issue_type] else detected_types)"

definition detect_issue_keywords :: "string \<Rightarrow> string list" where
  "detect_issue_keywords text = detect_loop (lower text) issue_patterns []"

section \<open>Priority extractor: \<open>extract_issue_priority\<close>\<close>

definition critical_words :: "string list" where
  "critical_words =
     [''critical'', ''urgent'', ''emergency'', ''blocker'', ''show-stopper'', ''showstopper'']"

definition high_words :: "string list" where
  "high_words = [''high'', ''important'', ''asap'', ''priority'']"

definition low_words :: "string list" where
  "low_words = [''low'', ''minor'', ''cosmetic'', ''nice to have'']"

definition extract_issue_priority :: "string \<Rightarrow> string" where
  "extract_issue_priority text =
     (let text_lower = lower text
      in if any_in critical_words text_lower then ''critical''
         else if any_in high_words text_lower then ''high''
         else if any_in low_words text_lower then ''low''
         else ''medium'')"

section \<open>Title synthesizer: \<open>generate_issue_title\<close>\<close>

text \<open>One attempt of the pattern \<open><[@#!][^>]+>\<close> at the head of the input: the text after
  the match, if it matches there. The greedy class \<open>[^>]+\<close> takes the whole run of characters
  other than \<open>>\<close>, which must be non-empty and be followed by \<open>>\<close>.\<close>

definition match_mention :: "string \<Rightarrow> string option" where
  "match_mention s =
     (case s of
        c # d # rest \<Rightarrow>
          if c = CHR ''<'' \<and> d \<in> set ''@#!'' then
            (let run = takeWhile (\<lambda>x. x \<noteq> CHR ''>'') rest;
                 after = dropWhile (\<lambda>x. x \<noteq> CHR ''>'') rest
             in if run \<noteq> [] \<and> after \<noteq> [] then Some (tl after) else None)
          else None
      | _ \<Rightarrow> None)"

text \<open>One attempt of the pattern \<open>http[s]?://\S+\<close> at the head of the input.\<close>

definition match_url :: "string \<Rightarrow> string option" where
  "match_url s =
     (let body = (if prefix ''https://'' s then Some (drop 8 s)
                  else if prefix ''http://'' s then Some (drop 7 s)
                  else None)
      in case body of
           None \<Rightarrow> None
         | Some b \<Rightarrow>
             if takeWhile (\<lambda>x. \<not> isspace x) b \<noteq> []
             then Some (dropWhile (\<lambda>x. \<not> isspace x) b) else None)"

lemma match_mention_shorter: "match_mention s = Some r \<Longrightarrow> length r < length s"
proof -
  assume a: "match_mention s = Some r"
  then obtain c d rest where s: "s = c # d # rest"
    by (auto simp: match_mention_def split: list.splits)
  let ?after = "dropWhile (\<lambda>x. x \<noteq> CHR ''>'') rest"
  from a s have r: "r = tl ?after" and ne: "?after \<noteq> []"
    by (auto simp: match_mention_def Let_def split: if_splits)
  have "length ?after \<le> length rest"
    by (rule length_dropWhile_le)
  with r ne s show ?thesis
    by (cases ?after) auto
qed

lemma match_url_shorter: "match_url s = Some r \<Longrightarrow> length r < length s"
proof -
  assume a: "match_url s = Some r"
  have d: "length (dropWhile (\<lambda>x. \<not> isspace x) b) < length b"
    if "takeWhile (\<lambda>x. \<not> isspace x) b \<noteq> []" for b
  proof -
    have "length (takeWhile (\<lambda>x. \<not> isspace x) b) + length (dropWhile (\<lambda>x. \<not> isspace x) b)
          = length b"
      by (metis length_append takeWhile_dropWhile_id)
    with that show ?thesis
      by (cases "takeWhile (\<lambda>x. \<not> isspace x) b") auto
  qed
  from a show ?thesis
    by (auto simp: match_url_def Let_def split: if_splits dest!: d)
qed

text \<open>\<open>re.sub(pattern, '', s)\<close> for the two patterns, whose matches are never empty: scan
  from the left, drop each leftmost match and go on behind it, keep every other character.\<close>

function sub_mentions :: "string \<Rightarrow> string" where
  "sub_mentions [] = []"
| "sub_mentions (c # cs) =
     (case match_mention (c # cs) of
        Some rest \<Rightarrow> sub_mentions rest
      | None \<Rightarrow> c # sub_mentions cs)"
  by pat_completeness auto
termination
  by (relation "measure length") (auto dest: match_mention_shorter)

function sub_urls :: "string \<Rightarrow> string" where
  "sub_urls [] = []"
| "sub_urls (c # cs) =
     (case match_url (c # cs) of
        Some rest \<Rightarrow> sub_urls rest
      | None \<Rightarrow> c # sub_urls cs)"
  by pat_completeness auto
termination
  by (relation "measure length") (auto dest: match_url_shorter)

text \<open>\<open>str.split()\<close> without arguments: the maximal runs of non-whitespace.\<close>

fun split_ws :: "string \<Rightarrow> string \<Rightarrow> string list" where
  "split_ws cur [] = (if cur = [] then [] else [cur])"
| "split_ws cur (c # cs) =
     (if isspace c then (if cur = [] then split_ws [] cs else cur # split_ws [] cs)
      else split_ws (cur @ [c]) cs)"

definition split :: "string \<Rightarrow> string list" where
  "split s = split_ws [] s"

definition skip_words :: "string list" where
  "skip_words = [''the'', ''a'', ''an'', ''is'', ''was'', ''are'', ''were'', ''i'', ''we'',
                 ''you'', ''they'', ''it'', ''this'', ''that'']"

text \<open>The loop that keeps a word when its lower-cased form is no stop word and it has more
  than two characters.\<close>

fun filter_loop :: "string list \<Rightarrow> string list \<Rightarrow> string list" where
  "filter_loop [] filtered_words = filtered_words"
| "filter_loop (word # rest) filtered_words =
     filter_loop rest
       (if lower word \<notin> set skip_words \<and> length word > 2
        then filtered_words @ [word] else filtered_words)"

text \<open>\<open>" ".join(words)\<close>.\<close>

fun join_sp :: "string list \<Rightarrow> string" where
  "join_sp [] = []"
| "join_sp [w] = w"
| "join_sp (w # v # ws) = w @ '' '' @ join_sp (v # ws)"

text \<open>The slice \<open>s[:k]\<close> for any integer \<open>k\<close>: a negative \<open>k\<close> counts from the end.\<close>

definition slice_to :: "'a list \<Rightarrow> int \<Rightarrow> 'a list" where
  "slice_to s k = (if k < 0 then take (nat (int (length s) + k)) s else take (nat k) s)"

text \<open>\<open>str.strip()\<close>.\<close>

definition strip :: "string \<Rightarrow> string" where
  "strip s = rev (dropWhile isspace (rev (dropWhile isspace s)))"

definition generate_issue_title :: "string \<Rightarrow> int \<Rightarrow> string" where
  "generate_issue_title text max_length =
     (let cleaned = sub_mentions text;
          cleaned = sub_urls cleaned;
          words = split cleaned;
          filtered_words = filter_loop words [];
          title = join_sp (take 12 filtered_words);
          title = (if int (length title) > max_length
                   then slice_to title (max_length - 3) @ ''...'' else title)
      in strip title)"

section \<open>Record store\<close>

text \<open>The dictionaries of the source are association lists in insertion order: a lookup is
  \<^const>\<open>map_of\<close>, an assignment \<open>d[k] = v\<close> is \<^const>\<open>AList.update\<close> (in place for a
  known key, at the end for a new one). A dictionary with a fixed set of keys is a record; a key
  that may be missing is an \<^typ>\<open>'a option\<close> field.\<close>

record history_entry =
  h_status :: string
  h_timestamp :: string
  h_user :: string
  h_previous_status :: "string option"

record related_message =
  r_text :: string
  r_user :: string
  r_channel :: string
  r_timestamp :: string
  r_message_ts :: string
  r_added_at :: string

record issue =
  issue_id :: string
  title :: string
  description :: string
  original_text :: string
  channel :: string
  reporter :: string
  timestamp :: string
  message_ts :: string
  status :: string
  priority :: string
  tags :: "string list"
  related_messages :: "related_message list"
  status_history :: "history_entry list"
  created_at :: string
  updated_at :: string

record project =
  project_channels :: "string list"
  project_keywords :: "string list"
  project_created_at :: string
  active :: "bool option"

text \<open>The argument \<open>issue_data\<close> of \<open>create_issue\<close>, which is also what the detector
  emits; every key is read with \<open>.get\<close>, so every key may be missing.\<close>

record issue_data =
  d_title :: "string option"
  d_description :: "string option"
  d_original_text :: "string option"
  d_channel :: "string option"
  d_reporter :: "string option"
  d_timestamp :: "string option"
  d_message_ts :: "string option"
  d_status :: "string option"
  d_priority :: "string option"
  d_tags :: "string list option"
  d_types :: "string list option"

text \<open>The argument \<open>message_data\<close> of \<open>add_related_message\<close>.\<close>

record message_data =
  md_text :: "string option"
  md_user :: "string option"
  md_channel :: "string option"
  md_timestamp :: "string option"
  md_message_ts :: "string option"

text \<open>The settings of one user.\<close>

record user_settings =
  custom_prompt :: "string option"
  user_keywords :: "string list option"
  default_hours :: "int option"
  projects :: "(string \<times> project) list option"
  issues :: "(string \<times> issue) list option"

definition empty_user :: user_settings where
  "empty_user = \<lparr>custom_prompt = None, user_keywords = None, default_hours = None,
                  projects = None, issues = None\<rparr>"

text \<open>The object \<open>UserSettings\<close>: the dictionary \<open>self.settings\<close> in memory, and the
  resource behind \<open>self.settings_file\<close>, that is what was last written to it (if anything)
  and whether it can be written.\<close>

record store =
  settings :: "(string \<times> user_settings) list"
  file_content :: "(string \<times> user_settings) list option"
  writable :: bool

text \<open>\<open>_save_settings\<close>: the whole dictionary is written; an \<open>IOError\<close> is swallowed.\<close>

definition save_settings :: "store \<Rightarrow> store" where
  "save_settings s = (if writable s then s\<lparr>file_content := Some (settings s)\<rparr> else s)"

definition get_user_settings :: "store \<Rightarrow> string \<Rightarrow> user_settings" where
  "get_user_settings s user_id =
     (case map_of (settings s) user_id of None \<Rightarrow> empty_user | Some u \<Rightarrow> u)"

subsection \<open>Projects\<close>

text \<open>\<open>keywords or []\<close> on the optional argument; \<open>now\<close> is the reading of the clock.\<close>

definition create_project ::
  "string \<Rightarrow> store \<Rightarrow> string \<Rightarrow> string \<Rightarrow> string list \<Rightarrow> string list option \<Rightarrow> store" where
  "create_project now s user_id project_name chans kws =
     (let u = get_user_settings s user_id;
          ps = (case projects u of None \<Rightarrow> [] | Some m \<Rightarrow> m);
          p = \<lparr>project_channels = chans,
               project_keywords = (case kws of None \<Rightarrow> [] | Some k \<Rightarrow> k),
               project_created_at = now,
               active = Some True\<rparr>
      in save_settings
           (s\<lparr>settings :=
                AList.update user_id (u\<lparr>projects := Some (AList.update project_name p ps)\<rparr>)
                  (settings s)\<rparr>))"

definition get_user_projects :: "store \<Rightarrow> string \<Rightarrow> (string \<times> project) list" where
  "get_user_projects s user_id =
     (case projects (get_user_settings s user_id) of None \<Rightarrow> [] | Some m \<Rightarrow> m)"

definition get_project :: "store \<Rightarrow> string \<Rightarrow> string \<Rightarrow> project option" where
  "get_project s user_id project_name = map_of (get_user_projects s user_id) project_name"

text \<open>The result \<open>None\<close> of the source is \<^term>\<open>None\<close>, a boolean \<open>b\<close> is \<^term>\<open>Some b\<close>.\<close>

definition toggle_project_status :: "store \<Rightarrow> string \<Rightarrow> string \<Rightarrow> bool option \<times> store" where
  "toggle_project_status s user_id project_name =
     (case map_of (settings s) user_id of
        None \<Rightarrow> (None, s)
      | Some u \<Rightarrow>
          (case projects u of
             None \<Rightarrow> (None, s)
           | Some ps \<Rightarrow>
               (case map_of ps project_name of
                  None \<Rightarrow> (None, s)
                | Some p \<Rightarrow>
                    (let current_status = (case active p of None \<Rightarrow> True | Some b \<Rightarrow> b);
                         p' = p\<lparr>active := Some (\<not> current_status)\<rparr>
                     in (Some (\<not> current_status),
                         save_settings
                           (s\<lparr>settings :=
                                AList.update user_id
                                  (u\<lparr>projects := Some (AList.update project_name p' ps)\<rparr>)
                                  (settings s)\<rparr>))))))"

subsection \<open>Issue identity\<close>

text \<open>\<open>hashlib.md5(content.encode()).hexdigest()\<close>: the digest function of the library is a
  parameter \<open>md5\<close>, from the text to its 128-bit digest; \<open>hexdigest\<close> writes the digest as 32
  lower-case hexadecimal digits, the most significant first.\<close>

definition hex_digit :: "nat \<Rightarrow> char" where
  "hex_digit n = ''0123456789abcdef'' ! (n mod 16)"

definition hexdigest :: "128 word \<Rightarrow> string" where
  "hexdigest w = map (\<lambda>k. hex_digit (unat (drop_bit (4 * k) w))) (rev [0..<32])"

definition generate_issue_id :: "(string \<Rightarrow> 128 word) \<Rightarrow> string \<Rightarrow> string \<Rightarrow> string \<Rightarrow> string" where
  "generate_issue_id md5 message_text chan ts =
     (let content = take 100 message_text @ chan @ ts
      in take 8 (hexdigest (md5 content)))"

subsection \<open>Issue lifecycle\<close>

text \<open>\<open>create_issue\<close> reads the clock three times: for the history entry, for
  \<open>created_at\<close> and for \<open>updated_at\<close>.\<close>

definition create_issue ::
  "(string \<Rightarrow> 128 word) \<Rightarrow> string \<times> string \<times> string \<Rightarrow> store \<Rightarrow> string \<Rightarrow> issue_data
     \<Rightarrow> string \<times> store" where
  "create_issue md5 clock s user_id data =
     (let (t_history, t_created, t_updated) = clock;
          u = get_user_settings s user_id;
          iss = (case issues u of None \<Rightarrow> [] | Some m \<Rightarrow> m);
          new_id = generate_issue_id md5 (get_str (d_original_text data))
                     (get_str (d_channel data)) (get_str (d_timestamp data));
          new_issue =
            \<lparr>issue_id = new_id,
             title = get_str (d_title data),
             description = get_str (d_description data),
             original_text = get_str (d_original_text data),
             channel = get_str (d_channel data),
             reporter = get_str (d_reporter data),
             timestamp = get_str (d_timestamp data),
             message_ts = get_str (d_message_ts data),
             status = (case d_status data of None \<Rightarrow> ''open'' | Some x \<Rightarrow> x),
             priority = (case d_priority data of None \<Rightarrow> ''medium'' | Some x \<Rightarrow> x),
             tags = (case d_tags data of None \<Rightarrow> [] | Some x \<Rightarrow> x),
             related_messages = [],
             status_history =
               [\<lparr>h_status = ''open'', h_timestamp = t_history, h_user = user_id,
                 h_previous_status = None\<rparr>],
             created_at = t_created,
             updated_at = t_updated\<rparr>
      in (new_id,
          save_settings
            (s\<lparr>settings :=
                 AList.update user_id (u\<lparr>issues := Some (AList.update new_id new_issue iss)\<rparr>)
                   (settings s)\<rparr>)))"

text \<open>\<open>if status:\<close> holds for a status that is given and not empty.\<close>

definition get_user_issues :: "store \<Rightarrow> string \<Rightarrow> string option \<Rightarrow> (string \<times> issue) list" where
  "get_user_issues s user_id status_filter =
     (let iss = (case issues (get_user_settings s user_id) of None \<Rightarrow> [] | Some m \<Rightarrow> m)
      in case status_filter of
           None \<Rightarrow> iss
         | Some st \<Rightarrow> if st \<noteq> [] then filter (\<lambda>(k, v). status v = st) iss else iss)"

definition get_issue :: "store \<Rightarrow> string \<Rightarrow> string \<Rightarrow> issue option" where
  "get_issue s user_id iid = map_of (get_user_issues s user_id None) iid"

text \<open>\<open>updated_by or user_id\<close>.\<close>

definition or_user :: "string option \<Rightarrow> string \<Rightarrow> string" where
  "or_user updated_by user_id =
     (case updated_by of None \<Rightarrow> user_id | Some b \<Rightarrow> if b = [] then user_id else b)"

text \<open>\<open>update_issue_status\<close> reads the clock twice: for \<open>updated_at\<close>, then for the
  history entry.\<close>

definition update_issue_status ::
  "string \<times> string \<Rightarrow> store \<Rightarrow> string \<Rightarrow> string \<Rightarrow> string \<Rightarrow> string option \<Rightarrow> bool \<times> store" where
  "update_issue_status clock s user_id iid new_status updated_by =
     (case map_of (settings s) user_id of
        None \<Rightarrow> (False, s)
      | Some u \<Rightarrow>
          (case issues u of
             None \<Rightarrow> (False, s)
           | Some iss \<Rightarrow>
               (case map_of iss iid of
                  None \<Rightarrow> (False, s)
                | Some i \<Rightarrow>
                    (let old_status = status i;
                         i' = i\<lparr>status := new_status,
                                updated_at := fst clock,
                                status_history := status_history i @
                                  [\<lparr>h_status = new_status, h_timestamp = snd clock,
                                    h_user = or_user updated_by user_id,
                                    h_previous_status = Some old_status\<rparr>]\<rparr>
                     in (True,
                         save_settings
                           (s\<lparr>settings :=
                                AList.update user_id (u\<lparr>issues := Some (AList.update iid i' iss)\<rparr>)
                                  (settings s)\<rparr>))))))"

text \<open>\<open>add_related_message\<close> reads the clock twice: for \<open>added_at\<close>, then for
  \<open>updated_at\<close>.\<close>

definition add_related_message ::
  "string \<times> string \<Rightarrow> store \<Rightarrow> string \<Rightarrow> string \<Rightarrow> message_data \<Rightarrow> bool \<times> store" where
  "add_related_message clock s user_id iid data =
     (case map_of (settings s) user_id of
        None \<Rightarrow> (False, s)
      | Some u \<Rightarrow>
          (case issues u of
             None \<Rightarrow> (False, s)
           | Some iss \<Rightarrow>
               (case map_of iss iid of
                  None \<Rightarrow> (False, s)
                | Some i \<Rightarrow>
                    (let related_message =
                           \<lparr>r_text = get_str (md_text data),
                            r_user = get_str (md_user data),
                            r_channel = get_str (md_channel data),
                            r_timestamp = get_str (md_timestamp data),
                            r_message_ts = get_str (md_message_ts data),
                            r_added_at = fst clock\<rparr>;
                         i' = i\<lparr>related_messages := related_messages i @ [related_message],
                                updated_at := snd clock\<rparr>
                     in (True,
                         save_settings
                           (s\<lparr>settings :=
                                AList.update user_id (u\<lparr>issues := Some (AList.update iid i' iss)\<rparr>)
                                  (settings s)\<rparr>))))))"

subsection \<open>Search\<close>

text \<open>The f-string \<open>f"{title} {description} {original_text}"\<close>, lower-cased.\<close>

definition searchable_text :: "issue \<Rightarrow> string" where
  "searchable_text i = lower (title i @ '' '' @ description i @ '' '' @ original_text i)"

fun search_loop :: "string \<Rightarrow> (string \<times> issue) list \<Rightarrow> issue list \<Rightarrow> issue list" where
  "search_loop query_lower [] results = results"
| "search_loop query_lower ((iid, i) # rest) results =
     search_loop query_lower rest
       (if sublist query_lower (searchable_text i) then results @ [i] else results)"

text \<open>\<open>list.sort(key=f, reverse=True)\<close>: descending in the key, and stable, so that elements
  with equal keys keep their order. \<^const>\<open>sort_key\<close> is a stable ascending sort; reversing
  before and after turns it into the stable descending one.\<close>

definition sort_reverse :: "('a \<Rightarrow> 'k::linorder) \<Rightarrow> 'a list \<Rightarrow> 'a list" where
  "sort_reverse f xs = rev (sort_key f (rev xs))"

definition search_issues :: "store \<Rightarrow> string \<Rightarrow> string \<Rightarrow> issue list" where
  "search_issues s user_id query =
     (let iss = get_user_issues s user_id None;
          query_lower = lower query;
          results = search_loop query_lower iss []
      in sort_reverse updated_at results)"

subsection \<open>Statistics\<close>

record priority_counts =
  low :: nat
  medium :: nat
  high :: nat
  critical :: nat

record stats =
  total :: nat
  n_open :: nat
  investigating :: nat
  resolved :: nat
  closed :: nat
  by_priority :: priority_counts
  recent_activity :: nat

datatype py_error = TypeError

text \<open>\<open>if status in stats: stats[status] += 1\<close>. The test is on all keys of \<open>stats\<close>:
  a status named like another key increments that entry, and \<open>by_priority\<close>, which holds a
  dictionary, cannot be incremented.\<close>

definition count_status :: "string \<Rightarrow> stats \<Rightarrow> py_error + stats" where
  "count_status st c =
     (if st = ''total'' then Inr (c\<lparr>total := total c + 1\<rparr>)
      else if st = ''open'' then Inr (c\<lparr>n_open := n_open c + 1\<rparr>)
      else if st = ''investigating'' then Inr (c\<lparr>investigating := investigating c + 1\<rparr>)
      else if st = ''resolved'' then Inr (c\<lparr>resolved := resolved c + 1\<rparr>)
      else if st = ''closed'' then Inr (c\<lparr>closed := closed c + 1\<rparr>)
      else if st = ''by_priority'' then Inl TypeError
      else if st = ''recent_activity'' then Inr (c\<lparr>recent_activity := recent_activity c + 1\<rparr>)
      else Inr c)"

text \<open>\<open>if priority in stats["by_priority"]: stats["by_priority"][priority] += 1\<close>.\<close>

definition count_priority :: "string \<Rightarrow> priority_counts \<Rightarrow> priority_counts" where
  "count_priority p b =
     (if p = ''low'' then b\<lparr>low := low b + 1\<rparr>
      else if p = ''medium'' then b\<lparr>medium := medium b + 1\<rparr>
      else if p = ''high'' then b\<lparr>high := high b + 1\<rparr>
      else if p = ''critical'' then b\<lparr>critical := critical b + 1\<rparr>
      else b)"

text \<open>The loop over \<open>issues.values()\<close>. The parameter \<open>recent\<close> stands for the clock and
  the library's date parser: \<open>recent t\<close> holds when \<open>t\<close> parses as an ISO date that lies
  less than 24 hours before the call; a date that does not parse is not recent.\<close>

fun stats_loop :: "(string \<Rightarrow> bool) \<Rightarrow> issue list \<Rightarrow> stats \<Rightarrow> py_error + stats" where
  "stats_loop recent [] c = Inr c"
| "stats_loop recent (i # rest) c =
     (case count_status (status i) c of
        Inl e \<Rightarrow> Inl e
      | Inr c1 \<Rightarrow>
          (let c2 = c1\<lparr>by_priority := count_priority (priority i) (by_priority c1)\<rparr>;
               c3 = (if updated_at i \<noteq> [] \<and> recent (updated_at i)
                     then c2\<lparr>recent_activity := recent_activity c2 + 1\<rparr> else c2)
           in stats_loop recent rest c3))"

definition get_issue_statistics :: "(string \<Rightarrow> bool) \<Rightarrow> store \<Rightarrow> string \<Rightarrow> py_error + stats" where
  "get_issue_statistics recent s user_id =
     (let iss = get_user_issues s user_id None
      in stats_loop recent (map snd iss)
           \<lparr>total = length iss, n_open = 0, investigating = 0, resolved = 0, closed = 0,
            by_priority = \<lparr>low = 0, medium = 0, high = 0, critical = 0\<rparr>,
            recent_activity = 0\<rparr>)"

text \<open>\<open>sum(stats["by_priority"].values())\<close>.\<close>

definition sum_by_priority :: "stats \<Rightarrow> nat" where
  "sum_by_priority c =
     low (by_priority c) + medium (by_priority c) + high (by_priority c)
       + critical (by_priority c)"

section \<open>Issue detector: \<open>detect_and_track_issues\<close>\<close>

text \<open>A message is a dictionary, and any of its keys may be missing. The docstring of the
  detector names the keys \<open>text\<close>, \<open>user\<close>, \<open>channel\<close> and \<open>timestamp\<close>; the caller of
  the detector passes the time of the message under the key \<open>ts\<close>. The detector reads
  \<open>text\<close>, \<open>user\<close>, \<open>channel\<close> and \<open>ts\<close>, each with \<open>.get(key, "")\<close>, and never reads
  \<open>timestamp\<close>.\<close>

record message =
  m_text :: "string option"
  m_user :: "string option"
  m_channel :: "string option"
  m_timestamp :: "string option"
  m_ts :: "string option"

text \<open>The loop over the messages; the title is generated with the default \<open>max_length\<close>
  of 80. Console output is not modelled.\<close>

fun detect_messages :: "message list \<Rightarrow> issue_data list \<Rightarrow> issue_data list" where
  "detect_messages [] detected_issues = detected_issues"
| "detect_messages (m # rest) detected_issues =
     (let message_text = get_str (m_text m);
          issue_types = detect_issue_keywords message_text
      in if issue_types \<noteq> [] then
           (let priority = extract_issue_priority message_text;
                title = generate_issue_title message_text 80;
                data = \<lparr>d_title = Some title,
                        d_description = None,
                        d_original_text = Some message_text,
                        d_channel = Some (get_str (m_channel m)),
                        d_reporter = Some (get_str (m_user m)),
                        d_timestamp = Some (get_str (m_ts m)),
                        d_message_ts = Some (get_str (m_ts m)),
                        d_status = None,
                        d_priority = Some priority,
                        d_tags = Some issue_types,
                        d_types = Some issue_types\<rparr>
            in detect_messages rest (detected_issues @ [data]))
         else detect_messages rest detected_issues)"

text \<open>The function runs beside the global store \<open>user_settings\<close> and does not touch it
  (the call of \<open>create_issue\<close> in its body is commented out): the store comes back as it
  went in.\<close>

definition detect_and_track_issues :: "store \<Rightarrow> message list \<Rightarrow> string \<Rightarrow> issue_data list \<times> store" where
  "detect_and_track_issues s messages user_id = (detect_messages messages [], s)"

section \<open>Runs of calls and sample data\<close>

text \<open>A run of calls of \<open>update_issue_status\<close> on one issue of one user, each call with its
  two readings of the clock, the new status and the optional \<open>updated_by\<close>: the results of
  the calls, in order, and the store after the last one.\<close>

fun run_updates ::
  "store \<Rightarrow> string \<Rightarrow> string \<Rightarrow> ((string \<times> string) \<times> string \<times> string option) list
     \<Rightarrow> bool list \<times> store" where
  "run_updates s user_id iid [] = ([], s)"
| "run_updates s user_id iid ((clock, new_status, updated_by) # rest) =
     (let (ok, s') = update_issue_status clock s user_id iid new_status updated_by;
          (oks, s'') = run_updates s' user_id iid rest
      in (ok # oks, s''))"

text \<open>Sample data for the examples: an issue as \<open>create_issue\<close> stores it, and a store
  that holds the given issues for the user \<open>U1\<close>.\<close>

definition sample_issue ::
  "string \<Rightarrow> string \<Rightarrow> string \<Rightarrow> string \<Rightarrow> string \<Rightarrow> string \<Rightarrow> string \<Rightarrow> issue" where
  "sample_issue iid ttl descr txt st prio t =
     \<lparr>issue_id = iid, title = ttl, description = descr, original_text = txt,
      channel = ''hardware'', reporter = ''alice'', timestamp = ''1000000000'',
      message_ts = ''1000000000.000100'', status = st, priority = prio, tags = [],
      related_messages = [],
      status_history = [\<lparr>h_status = ''open'', h_timestamp = t, h_user = ''U1'',
                          h_previous_status = None\<rparr>],
      created_at = t, updated_at = t\<rparr>"

definition sample_store :: "(string \<times> issue) list \<Rightarrow> store" where
  "sample_store iss =
     \<lparr>settings = [(''U1'', \<lparr>custom_prompt = None, user_keywords = None, default_hours = None,
                            projects = None, issues = Some iss\<rparr>)],
      file_content = None, writable = True\<rparr>"

section \<open>Properties of the classifier and the priority extractor\<close>

lemma any_in_iff: "any_in ws s \<longleftrightarrow> (\<exists>w\<in>set ws. sublist w s)"
  by (simp add: any_in_def list_ex_iff)

lemma detect_loop_filter:
  "detect_loop txt pats acc = acc @ map fst (filter (\<lambda>(tag, ks). any_in ks txt) pats)"
  by (induction pats arbitrary: acc) auto

lemma detect_issue_keywords_filter:
  "detect_issue_keywords text =
     map fst (filter (\<lambda>(tag, ks). any_in ks (lower text)) issue_patterns)"
  by (simp add: detect_issue_keywords_def detect_loop_filter)

text \<open>
  Claim C3. For every text, \<open>extract_issue_priority\<close> returns \<open>critical\<close> if a word of the
  critical family occurs in the lower-cased text, otherwise \<open>high\<close> if a word of the high
  family occurs, otherwise \<open>low\<close> if a word of the low family occurs, otherwise \<open>medium\<close>.
  In particular a text with both a critical and a low word yields \<open>critical\<close>, and the three
  examples of the specification evaluate to \<open>critical\<close>, \<open>low\<close> and \<open>medium\<close>.
\<close>

theorem extract_issue_priority_precedence:
  "extract_issue_priority text =
     (if \<exists>w\<in>set critical_words. sublist w (lower text) then ''critical''
      else if \<exists>w\<in>set high_words. sublist w (lower text) then ''high''
      else if \<exists>w\<in>set low_words. sublist w (lower text) then ''low''
      else ''medium'')
   \<and> ((\<exists>w\<in>set critical_words. sublist w (lower text)) \<and>
        (\<exists>w\<in>set low_words. sublist w (lower text))
        \<longrightarrow> extract_issue_priority text = ''critical'')
   \<and> extract_issue_priority ''Critical system failure'' = ''critical''
   \<and> extract_issue_priority ''Minor cosmetic problem'' = ''low''
   \<and> extract_issue_priority ''Regular bug report'' = ''medium''"
proof -
  have general: "extract_issue_priority text =
     (if \<exists>w\<in>set critical_words. sublist w (lower text) then ''critical''
      else if \<exists>w\<in>set high_words. sublist w (lower text) then ''high''
      else if \<exists>w\<in>set low_words. sublist w (lower text) then ''low''
      else ''medium'')"
    by (simp add: extract_issue_priority_def Let_def any_in_iff)
  have e1: "extract_issue_priority ''Critical system failure'' = ''critical''"
    by code_simp
  have e2: "extract_issue_priority ''Minor cosmetic problem'' = ''low''"
    by code_simp
  have e3: "extract_issue_priority ''Regular bug report'' = ''medium''"
    by code_simp
  from general e1 e2 e3 show ?thesis
    by presburger
qed

theorem extract_issue_priority_precedence_witness:
  "(\<exists>w\<in>set critical_words. sublist w (lower ''Urgent: minor typo in the low battery page''))
   \<and> (\<exists>w\<in>set low_words. sublist w (lower ''Urgent: minor typo in the low battery page''))
   \<and> extract_issue_priority ''Urgent: minor typo in the low battery page'' = ''critical''"
proof -
  have c: "\<exists>w\<in>set critical_words. sublist w (lower ''Urgent: minor typo in the low battery page'')"
    by code_simp
  have l: "\<exists>w\<in>set low_words. sublist w (lower ''Urgent: minor typo in the low battery page'')"
    by code_simp
  from c l extract_issue_priority_precedence [of "''Urgent: minor typo in the low battery page''"]
  show ?thesis
    by blast
qed

text \<open>
  Claim C4. For every text, \<open>detect_issue_keywords\<close> emits a tag if and only if one of the
  patterns of that tag is a substring of the lower-cased text; the result lists, in the order
  of the pattern table, every tag whose own family matches, whatever the other families do.
  The function is a total function of the text. The empty string yields no tag, the PCB
  example yields both \<open>bug\<close> and \<open>hardware\<close>, the lunch example yields no tag.
\<close>

theorem detect_issue_keywords_union:
  "(tag \<in> set (detect_issue_keywords text) \<longleftrightarrow>
      (\<exists>pats. (tag, pats) \<in> set issue_patterns \<and> (\<exists>p\<in>set pats. sublist p (lower text))))
   \<and> detect_issue_keywords text =
       map fst (filter (\<lambda>(tag, pats). \<exists>p\<in>set pats. sublist p (lower text)) issue_patterns)
   \<and> detect_issue_keywords [] = []
   \<and> {''bug'', ''hardware''} \<subseteq> set (detect_issue_keywords ''The PCB has a bug in the power circuit'')
   \<and> detect_issue_keywords ''Let's grab lunch today'' = []"
proof -
  have f: "detect_issue_keywords text =
       map fst (filter (\<lambda>(tag, pats). \<exists>p\<in>set pats. sublist p (lower text)) issue_patterns)"
    by (simp add: detect_issue_keywords_filter any_in_iff)
  have m: "tag \<in> set (detect_issue_keywords text) \<longleftrightarrow>
      (\<exists>pats. (tag, pats) \<in> set issue_patterns \<and> (\<exists>p\<in>set pats. sublist p (lower text)))"
    unfolding f by force
  have e0: "detect_issue_keywords [] = []"
    by code_simp
  have e1: "detect_issue_keywords ''The PCB has a bug in the power circuit'' = [''bug'', ''hardware'']"
    by code_simp
  have e2: "detect_issue_keywords ''Let's grab lunch today'' = []"
    by code_simp
  from f m e0 e2 show ?thesis
    by (simp add: e1)
qed

theorem detect_issue_keywords_union_witness:
  "(''failure'', [''failure'', ''failed'', ''failing'', ''fails'', ''crash'', ''crashed'',
                  ''crashing'']) \<in> set issue_patterns
   \<and> sublist ''crashed'' (lower ''System crashed during thermal test'')
   \<and> ''failure'' \<in> set (detect_issue_keywords ''System crashed during thermal test'')"
proof -
  have p: "(''failure'', [''failure'', ''failed'', ''failing'', ''fails'', ''crash'', ''crashed'',
                  ''crashing'']) \<in> set issue_patterns"
    by (simp add: issue_patterns_def)
  have q: "sublist ''crashed'' (lower ''System crashed during thermal test'')"
    by code_simp
  from p q
    detect_issue_keywords_union [of "''failure''" "''System crashed during thermal test''"]
  show ?thesis
    by (meson list.set_intros)
qed

text \<open>
  Claim C10. Priority words are matched as raw substrings, with no test of word boundaries:
  a text whose lower-cased form contains a word of the high family anywhere, also inside a
  longer word, and contains no word of the critical family, has priority \<open>high\<close>. So has
  \<open>The highway is closed\<close>, none of whose words is a priority keyword.
\<close>

theorem extract_issue_priority_raw_substring:
  "((\<exists>w\<in>set high_words. \<exists>before after. lower text = before @ w @ after) \<and>
      \<not> (\<exists>w\<in>set critical_words. sublist w (lower text))
      \<longrightarrow> extract_issue_priority text = ''high'')
   \<and> extract_issue_priority ''The highway is closed'' = ''high''
   \<and> set (split (lower ''The highway is closed''))
        \<inter> set (critical_words @ high_words @ low_words) = {}"
proof -
  have g: "(\<exists>w\<in>set high_words. \<exists>before after. lower text = before @ w @ after) \<and>
      \<not> (\<exists>w\<in>set critical_words. sublist w (lower text))
      \<longrightarrow> extract_issue_priority text = ''high''"
    by (auto simp: extract_issue_priority_def Let_def any_in_iff sublist_def)
  have e: "extract_issue_priority ''The highway is closed'' = ''high''"
    by code_simp
  have w: "split (lower ''The highway is closed'') = [''the'', ''highway'', ''is'', ''closed'']"
    by code_simp
  have d: "set [''the'', ''highway'', ''is'', ''closed'']
             \<inter> set (critical_words @ high_words @ low_words) = {}"
    by (simp add: critical_words_def high_words_def low_words_def)
  from g e d show ?thesis
    unfolding w by blast
qed

theorem extract_issue_priority_raw_substring_witness:
  "lower ''The highway is closed'' = ''the '' @ ''high'' @ ''way is closed''
   \<and> ''high'' \<in> set high_words
   \<and> \<not> (\<exists>w\<in>set critical_words. sublist w (lower ''The highway is closed''))
   \<and> extract_issue_priority ''The highway is closed'' = ''high''"
proof -
  have a: "lower ''The highway is closed'' = ''the '' @ ''high'' @ ''way is closed''"
    by code_simp
  have b: "''high'' \<in> set high_words"
    by (simp add: high_words_def)
  have c: "\<not> (\<exists>w\<in>set critical_words. sublist w (lower ''The highway is closed''))"
    by code_simp
  from a b c extract_issue_priority_raw_substring [of "''The highway is closed''"]
  show ?thesis
    by blast
qed

section \<open>Properties of the title synthesizer\<close>

lemma length_strip_le: "length (strip s) \<le> length s"
proof -
  have "length (strip s) \<le> length (dropWhile isspace s)"
    unfolding strip_def by (metis length_dropWhile_le length_rev)
  also have "\<dots> \<le> length s"
    by (rule length_dropWhile_le)
  finally show ?thesis .
qed

lemma length_slice_to_le: "0 \<le> k \<Longrightarrow> int (length (slice_to s k)) \<le> k"
  by (simp add: slice_to_def)

text \<open>From a \<open>max_length\<close> of 3 on, the title is never longer than \<open>max_length\<close>: the
  cut keeps \<open>max_length - 3\<close> characters and the ellipsis adds three.\<close>

lemma generate_issue_title_bound_from_3:
  assumes "3 \<le> max_length"
  shows "int (length (generate_issue_title text max_length)) \<le> max_length"
proof -
  define t where "t = join_sp (take 12 (filter_loop (split (sub_urls (sub_mentions text))) []))"
  define t' where "t' = (if int (length t) > max_length
                         then slice_to t (max_length - 3) @ ''...'' else t)"
  have g: "generate_issue_title text max_length = strip t'"
    by (simp add: generate_issue_title_def Let_def t_def t'_def)
  have "int (length t') \<le> max_length"
  proof (cases "int (length t) > max_length")
    case True
    from assms have "int (length (slice_to t (max_length - 3))) \<le> max_length - 3"
      by (intro length_slice_to_le) simp
    with True show ?thesis
      by (simp add: t'_def)
  next
    case False
    then show ?thesis
      by (simp add: t'_def)
  qed
  moreover have "length (strip t') \<le> length t'"
    by (rule length_strip_le)
  ultimately show ?thesis
    unfolding g by linarith
qed

text \<open>
  Claim C5. For every text \<open>T\<close> and every \<open>max_length\<close> \<open>L\<close>, the title is at most \<open>L\<close>
  characters long. Below 3 the slice bound \<open>max_length - 3\<close> is negative and counts from the
  end of the title, so the cut keeps too much: for \<open>abcdef\<close> and \<open>L = 2\<close> the source
  evaluates \<open>title[:-1] + "..."\<close>, a title of eight characters.
\<close>

theorem generate_issue_title_exceeds_small_max_length:
  "generate_issue_title ''abcdef'' 2 = ''abcde...''
   \<and> \<not> int (length (generate_issue_title ''abcdef'' 2)) \<le> 2"
proof -
  have e: "generate_issue_title ''abcdef'' 2 = ''abcde...''"
    by code_simp
  show ?thesis
    unfolding e by simp
qed

section \<open>Properties of the issue identity\<close>

lemma hex_digit_in: "hex_digit n \<in> set ''0123456789abcdef''"
proof -
  have "n mod 16 < length ''0123456789abcdef''"
    by simp
  then show ?thesis
    unfolding hex_digit_def by (rule nth_mem)
qed

lemma length_hexdigest: "length (hexdigest w) = 32"
  by (simp add: hexdigest_def)

lemma set_hexdigest: "set (hexdigest w) \<subseteq> set ''0123456789abcdef''"
  unfolding hexdigest_def using hex_digit_in by auto

text \<open>
  Claim C2. Whatever the digest function, the fingerprint is a string of eight hexadecimal
  digits and a function of the first 100 characters of the text, the channel and the
  timestamp: the identifier of a text is that of its prefix of 100 characters, so two texts
  with the same prefix, channel and timestamp get the same identifier, also when they differ
  behind the prefix.
\<close>

theorem generate_issue_id_prefix:
  "length (generate_issue_id md5 text chan ts) = 8
   \<and> set (generate_issue_id md5 text chan ts) \<subseteq> set ''0123456789abcdef''
   \<and> generate_issue_id md5 text chan ts = generate_issue_id md5 (take 100 text) chan ts
   \<and> (take 100 text = take 100 text'
        \<longrightarrow> generate_issue_id md5 text chan ts = generate_issue_id md5 text' chan ts)"
proof -
  have l: "length (generate_issue_id md5 text chan ts) = 8"
    by (simp add: generate_issue_id_def length_hexdigest)
  have h: "set (generate_issue_id md5 text chan ts) \<subseteq> set ''0123456789abcdef''"
    unfolding generate_issue_id_def Let_def
    by (rule subset_trans [OF set_take_subset set_hexdigest])
  have p: "generate_issue_id md5 text chan ts = generate_issue_id md5 (take 100 text) chan ts"
    by (simp add: generate_issue_id_def)
  have c: "take 100 text = take 100 text'
        \<longrightarrow> generate_issue_id md5 text chan ts = generate_issue_id md5 text' chan ts"
    by (simp add: generate_issue_id_def)
  from l h p c show ?thesis
    by blast
qed

theorem generate_issue_id_prefix_witness:
  "\<forall>md5.
     take 100 (replicate 100 CHR ''a'' @ ''first report'')
       = take 100 (replicate 100 CHR ''a'' @ ''another report'')
     \<and> replicate 100 CHR ''a'' @ ''first report'' \<noteq> replicate 100 CHR ''a'' @ ''another report''
     \<and> generate_issue_id md5 (replicate 100 CHR ''a'' @ ''first report'') ''hardware'' ''1000000000''
       = generate_issue_id md5 (replicate 100 CHR ''a'' @ ''another report'') ''hardware''
           ''1000000000''"
proof
  fix md5 :: "string \<Rightarrow> 128 word"
  have t: "take 100 (replicate 100 CHR ''a'' @ ''first report'')
       = take 100 (replicate 100 CHR ''a'' @ ''another report'')"
    by simp
  have n: "replicate 100 CHR ''a'' @ ''first report'' \<noteq> replicate 100 CHR ''a'' @ ''another report''"
    by simp
  from t n
    generate_issue_id_prefix [of md5 "replicate 100 CHR ''a'' @ ''first report''" "''hardware''"
      "''1000000000''" "replicate 100 CHR ''a'' @ ''another report''"]
  show "take 100 (replicate 100 CHR ''a'' @ ''first report'')
       = take 100 (replicate 100 CHR ''a'' @ ''another report'')
     \<and> replicate 100 CHR ''a'' @ ''first report'' \<noteq> replicate 100 CHR ''a'' @ ''another report''
     \<and> generate_issue_id md5 (replicate 100 CHR ''a'' @ ''first report'') ''hardware'' ''1000000000''
       = generate_issue_id md5 (replicate 100 CHR ''a'' @ ''another report'') ''hardware''
           ''1000000000''"
    by blast
qed


section \<open>Properties of the store operations\<close>

lemma settings_save_settings: "settings (save_settings s) = settings s"
  by (simp add: save_settings_def)

lemma get_issue_None_cases:
  "get_issue s user_id iid = None \<longleftrightarrow>
     (case map_of (settings s) user_id of
        None \<Rightarrow> True
      | Some u \<Rightarrow> (case issues u of None \<Rightarrow> True | Some iss \<Rightarrow> map_of iss iid = None))"
  by (simp add: get_issue_def get_user_issues_def get_user_settings_def empty_user_def
      split: option.splits)

lemma get_project_cases:
  "get_project s user_id pn =
     (case map_of (settings s) user_id of
        None \<Rightarrow> None
      | Some u \<Rightarrow> (case projects u of None \<Rightarrow> None | Some ps \<Rightarrow> map_of ps pn))"
  by (simp add: get_project_def get_user_projects_def get_user_settings_def empty_user_def
      split: option.splits)

lemma update_issue_status_absent:
  "get_issue s user_id iid = None \<Longrightarrow>
     update_issue_status clock s user_id iid new_status updated_by = (False, s)"
  by (auto simp: get_issue_None_cases update_issue_status_def split: option.splits)

lemma add_related_message_absent:
  "get_issue s user_id iid = None \<Longrightarrow> add_related_message clock s user_id iid data = (False, s)"
  by (auto simp: get_issue_None_cases add_related_message_def split: option.splits)

lemma toggle_project_status_absent:
  "get_project s user_id pn = None \<Longrightarrow> toggle_project_status s user_id pn = (None, s)"
  by (auto simp: get_project_cases toggle_project_status_def split: option.splits)

lemma toggle_project_status_present:
  assumes "get_project s user_id pn = Some p"
  shows "fst (toggle_project_status s user_id pn)
           = Some (\<not> (case active p of None \<Rightarrow> True | Some b \<Rightarrow> b))"
    and "get_project (snd (toggle_project_status s user_id pn)) user_id pn
           = Some (p\<lparr>active := Some (\<not> (case active p of None \<Rightarrow> True | Some b \<Rightarrow> b))\<rparr>)"
  using assms
  by (auto simp: get_project_cases toggle_project_status_def Let_def settings_save_settings
      update_conv' split: option.splits)

text \<open>
  Claim C9. For every user: \<open>update_issue_status\<close> and \<open>add_related_message\<close> on an issue
  identifier that is absent return \<open>False\<close>, raise nothing and leave the whole store (the
  settings in memory and the file) as it was. \<open>toggle_project_status\<close> on an absent project
  returns \<open>None\<close>, which is no boolean, and leaves the store as it was; on a present project
  it flips the active flag (a missing flag counts as \<open>True\<close>) and returns the new value.
\<close>

theorem absent_is_signalled_not_raised:
  "(get_issue s user_id iid = None \<longrightarrow>
      update_issue_status clock s user_id iid new_status updated_by = (False, s) \<and>
      add_related_message clock' s user_id iid data = (False, s))
   \<and> (get_project s user_id pn = None \<longrightarrow> toggle_project_status s user_id pn = (None, s))
   \<and> (\<forall>p. get_project s user_id pn = Some p \<longrightarrow>
        (let flipped = \<not> (case active p of None \<Rightarrow> True | Some b \<Rightarrow> b)
         in fst (toggle_project_status s user_id pn) = Some flipped \<and>
            get_project (snd (toggle_project_status s user_id pn)) user_id pn
              = Some (p\<lparr>active := Some flipped\<rparr>)))"
  using update_issue_status_absent add_related_message_absent toggle_project_status_absent
    toggle_project_status_present
  by (simp add: Let_def)

theorem absent_is_signalled_not_raised_witness:
  "(let s = create_project ''2025-03-01T09:00:00''
              \<lparr>settings = [], file_content = None, writable = True\<rparr>
              ''U1'' ''apollo'' [''hardware''] None;
        msg = \<lparr>md_text = Some ''same here'', md_user = Some ''bob'', md_channel = Some ''hardware'',
               md_timestamp = Some ''2000000000'', md_message_ts = Some ''2000000000.123''\<rparr>
    in get_issue s ''U1'' ''0a1b2c3d'' = None
       \<and> update_issue_status (''2025-03-01T09:05:00'', ''2025-03-01T09:05:00'') s ''U1''
            ''0a1b2c3d'' ''resolved'' None = (False, s)
       \<and> add_related_message (''2025-03-01T09:05:00'', ''2025-03-01T09:05:00'') s ''U1''
            ''0a1b2c3d'' msg = (False, s)
       \<and> get_project s ''U1'' ''zeus'' = None
       \<and> toggle_project_status s ''U1'' ''zeus'' = (None, s)
       \<and> map_option active (get_project s ''U1'' ''apollo'') = Some (Some True)
       \<and> fst (toggle_project_status s ''U1'' ''apollo'') = Some False
       \<and> map_option active
            (get_project (snd (toggle_project_status s ''U1'' ''apollo'')) ''U1'' ''apollo'')
           = Some (Some False))"
proof -
  define s where "s = create_project ''2025-03-01T09:00:00''
              \<lparr>settings = [], file_content = None, writable = True\<rparr>
              ''U1'' ''apollo'' [''hardware''] None"
  define p where "p = \<lparr>project_channels = [''hardware''], project_keywords = [],
    project_created_at = ''2025-03-01T09:00:00'', active = Some True\<rparr>"
  have i: "get_issue s ''U1'' ''0a1b2c3d'' = None"
    by (simp add: s_def create_project_def get_issue_def get_user_issues_def
        get_user_settings_def empty_user_def save_settings_def Let_def)
  have z: "get_project s ''U1'' ''zeus'' = None"
    by (simp add: s_def create_project_def get_project_def get_user_projects_def
        get_user_settings_def empty_user_def save_settings_def Let_def)
  have a: "get_project s ''U1'' ''apollo'' = Some p"
    by (simp add: s_def p_def create_project_def get_project_def get_user_projects_def
        get_user_settings_def empty_user_def save_settings_def Let_def)
  have f: "active p = Some True"
    by (simp add: p_def)
  note t = absent_is_signalled_not_raised [of s "''U1''" "''0a1b2c3d''" _ _ _ _ _ "''zeus''"]
  note t' = absent_is_signalled_not_raised [of s "''U1''" "''0a1b2c3d''" _ _ _ _ _ "''apollo''"]
  from i t have u: "update_issue_status clock s ''U1'' ''0a1b2c3d'' new_status updated_by = (False, s)"
    and r: "add_related_message clock' s ''U1'' ''0a1b2c3d'' data = (False, s)"
    for clock clock' new_status updated_by data
    by blast+
  from z t have n: "toggle_project_status s ''U1'' ''zeus'' = (None, s)"
    by blast
  from a t' have
    "let flipped = \<not> (case active p of None \<Rightarrow> True | Some b \<Rightarrow> b)
         in fst (toggle_project_status s ''U1'' ''apollo'') = Some flipped \<and>
            get_project (snd (toggle_project_status s ''U1'' ''apollo'')) ''U1'' ''apollo''
              = Some (p\<lparr>active := Some flipped\<rparr>)"
    by blast
  with f have g: "fst (toggle_project_status s ''U1'' ''apollo'') = Some False"
    and h: "get_project (snd (toggle_project_status s ''U1'' ''apollo'')) ''U1'' ''apollo''
              = Some (p\<lparr>active := Some False\<rparr>)"
    by (simp_all add: Let_def)
  from i u r z n a f g h show ?thesis
    unfolding s_def [symmetric] by (simp add: Let_def)
qed

section \<open>Properties of the issue detector\<close>

lemma detect_messages_filter:
  "detect_messages messages acc =
     acc @ map (\<lambda>m. \<lparr>d_title = Some (generate_issue_title (get_str (m_text m)) 80),
                     d_description = None,
                     d_original_text = Some (get_str (m_text m)),
                     d_channel = Some (get_str (m_channel m)),
                     d_reporter = Some (get_str (m_user m)),
                     d_timestamp = Some (get_str (m_ts m)),
                     d_message_ts = Some (get_str (m_ts m)),
                     d_status = None,
                     d_priority = Some (extract_issue_priority (get_str (m_text m))),
                     d_tags = Some (detect_issue_keywords (get_str (m_text m))),
                     d_types = Some (detect_issue_keywords (get_str (m_text m)))\<rparr>)
             (filter (\<lambda>m. detect_issue_keywords (get_str (m_text m)) \<noteq> []) messages)"
  by (induction messages arbitrary: acc) (simp_all add: Let_def)

text \<open>
  Claim C6 (as amended). For every sequence of messages, the detector returns one candidate
  for each message whose classifier tag list is not empty, and for no other, in the order of
  the input. The candidate of a message has the generated title, the extracted priority, the
  classifier's tags as \<open>types\<close> and as \<open>tags\<close>, the text as \<open>original_text\<close>, the channel
  and the user of the message as \<open>channel\<close> and \<open>reporter\<close>, and the entry of the message
  under the key \<open>ts\<close> as \<open>timestamp\<close> and as \<open>message_ts\<close>; a key the message lacks
  counts as the empty string, and the key \<open>timestamp\<close> of the message is not read. The store
  is left as it was.
\<close>

theorem detect_and_track_issues_candidates:
  "fst (detect_and_track_issues s messages user_id) =
     map (\<lambda>m. \<lparr>d_title = Some (generate_issue_title (get_str (m_text m)) 80),
               d_description = None,
               d_original_text = Some (get_str (m_text m)),
               d_channel = Some (get_str (m_channel m)),
               d_reporter = Some (get_str (m_user m)),
               d_timestamp = Some (get_str (m_ts m)),
               d_message_ts = Some (get_str (m_ts m)),
               d_status = None,
               d_priority = Some (extract_issue_priority (get_str (m_text m))),
               d_tags = Some (detect_issue_keywords (get_str (m_text m))),
               d_types = Some (detect_issue_keywords (get_str (m_text m)))\<rparr>)
       (filter (\<lambda>m. detect_issue_keywords (get_str (m_text m)) \<noteq> []) messages)
   \<and> snd (detect_and_track_issues s messages user_id) = s"
  by (simp add: detect_and_track_issues_def detect_messages_filter)

theorem detect_and_track_issues_candidates_witness:
  "fst (detect_and_track_issues \<lparr>settings = [], file_content = None, writable = True\<rparr>
     [\<lparr>m_text = Some ''The PCB has a bug in the power circuit'', m_user = Some ''alice'',
       m_channel = Some ''C042'', m_timestamp = None,
       m_ts = Some ''1700000000.000100''\<rparr>,
      \<lparr>m_text = Some ''Let's grab lunch today'', m_user = Some ''bob'',
       m_channel = Some ''C042'', m_timestamp = None,
       m_ts = Some ''1700000050.000200''\<rparr>,
      \<lparr>m_text = Some ''Urgent: the build is broken'', m_user = Some ''carol'',
       m_channel = Some ''C042'', m_timestamp = None,
       m_ts = Some ''1700000100.000300''\<rparr>] ''U1'')
   = [\<lparr>d_title = Some ''PCB has bug power circuit'', d_description = None,
       d_original_text = Some ''The PCB has a bug in the power circuit'',
       d_channel = Some ''C042'', d_reporter = Some ''alice'',
       d_timestamp = Some ''1700000000.000100'', d_message_ts = Some ''1700000000.000100'',
       d_status = None, d_priority = Some ''medium'',
       d_tags = Some [''bug'', ''hardware''], d_types = Some [''bug'', ''hardware'']\<rparr>,
      \<lparr>d_title = Some ''Urgent: build broken'', d_description = None,
       d_original_text = Some ''Urgent: the build is broken'',
       d_channel = Some ''C042'', d_reporter = Some ''carol'',
       d_timestamp = Some ''1700000100.000300'', d_message_ts = Some ''1700000100.000300'',
       d_status = None, d_priority = Some ''critical'',
       d_tags = Some [''bug'', ''critical'', ''regression''],
       d_types = Some [''bug'', ''critical'', ''regression'']\<rparr>]"
proof -
  have k1: "detect_issue_keywords ''The PCB has a bug in the power circuit'' = [''bug'', ''hardware'']"
    by code_simp
  have k2: "detect_issue_keywords ''Let's grab lunch today'' = []"
    by code_simp
  have k3: "detect_issue_keywords ''Urgent: the build is broken'' = [''bug'', ''critical'', ''regression'']"
    by code_simp
  have p1: "extract_issue_priority ''The PCB has a bug in the power circuit'' = ''medium''"
    by code_simp
  have p3: "extract_issue_priority ''Urgent: the build is broken'' = ''critical''"
    by code_simp
  have t1: "generate_issue_title ''The PCB has a bug in the power circuit'' 80
              = ''PCB has bug power circuit''"
    by code_simp
  have t3: "generate_issue_title ''Urgent: the build is broken'' 80 = ''Urgent: build broken''"
    by code_simp
  show ?thesis
    unfolding detect_and_track_issues_candidates [THEN conjunct1]
    by (simp add: get_str_def k1 k2 k3 p1 p3 t1 t3)
qed


text \<open>The claim as stated, for messages of the shape \<open>{text, user, channel, timestamp}\<close>,
  fails: the detector reads the key \<open>ts\<close>, so for a message that carries its time under
  the key \<open>timestamp\<close> both \<open>timestamp\<close> and \<open>message_ts\<close> of the candidate are the empty
  string, not the time of the message.\<close>

theorem detect_and_track_issues_timestamp_key_counterexample:
  "fst (detect_and_track_issues \<lparr>settings = [], file_content = None, writable = True\<rparr>
     [\<lparr>m_text = Some ''The PCB has a bug in the power circuit'', m_user = Some ''alice'',
       m_channel = Some ''C042'', m_timestamp = Some ''1700000000.000100'',
       m_ts = None\<rparr>] ''U1'')
   = [\<lparr>d_title = Some ''PCB has bug power circuit'', d_description = None,
       d_original_text = Some ''The PCB has a bug in the power circuit'',
       d_channel = Some ''C042'', d_reporter = Some ''alice'',
       d_timestamp = Some [], d_message_ts = Some [],
       d_status = None, d_priority = Some ''medium'',
       d_tags = Some [''bug'', ''hardware''], d_types = Some [''bug'', ''hardware'']\<rparr>]
   \<and> (Some [] :: string option) \<noteq> Some ''1700000000.000100''"
proof -
  have k: "detect_issue_keywords ''The PCB has a bug in the power circuit'' = [''bug'', ''hardware'']"
    by code_simp
  have p: "extract_issue_priority ''The PCB has a bug in the power circuit'' = ''medium''"
    by code_simp
  have t: "generate_issue_title ''The PCB has a bug in the power circuit'' 80
             = ''PCB has bug power circuit''"
    by code_simp
  show ?thesis
    by (simp add: detect_and_track_issues_def get_str_def Let_def k p t)
qed

section \<open>Properties of the statistics\<close>

lemma count_status_known:
  "st \<in> set [''open'', ''investigating'', ''resolved'', ''closed''] \<Longrightarrow>
   \<exists>c'. count_status st c = Inr c' \<and> total c' = total c \<and> by_priority c' = by_priority c
     \<and> n_open c' + investigating c' + resolved c' + closed c'
         = Suc (n_open c + investigating c + resolved c + closed c)"
  by (auto simp: count_status_def)

lemma count_priority_known:
  "p \<in> set [''low'', ''medium'', ''high'', ''critical''] \<Longrightarrow>
   low (count_priority p b) + medium (count_priority p b) + high (count_priority p b)
     + critical (count_priority p b) = Suc (low b + medium b + high b + critical b)"
  by (auto simp: count_priority_def)

lemma stats_loop_known:
  "\<forall>i\<in>set is. status i \<in> set [''open'', ''investigating'', ''resolved'', ''closed''] \<Longrightarrow>
   \<exists>c'. stats_loop recent is c = Inr c' \<and> total c' = total c
     \<and> n_open c' + investigating c' + resolved c' + closed c'
         = n_open c + investigating c + resolved c + closed c + length is
     \<and> ((\<forall>i\<in>set is. priority i \<in> set [''low'', ''medium'', ''high'', ''critical''])
          \<longrightarrow> sum_by_priority c' = sum_by_priority c + length is)"
proof (induction "is" arbitrary: c)
  case Nil
  then show ?case by simp
next
  case (Cons i rest)
  from Cons.prems have k: "status i \<in> set [''open'', ''investigating'', ''resolved'', ''closed'']"
    and r: "\<forall>i\<in>set rest. status i \<in> set [''open'', ''investigating'', ''resolved'', ''closed'']"
    by simp_all
  from count_status_known [OF k, of c] obtain c1 where
    c1: "count_status (status i) c = Inr c1" "total c1 = total c" "by_priority c1 = by_priority c"
      "n_open c1 + investigating c1 + resolved c1 + closed c1
         = Suc (n_open c + investigating c + resolved c + closed c)"
    by blast
  define c2 where "c2 = c1\<lparr>by_priority := count_priority (priority i) (by_priority c1)\<rparr>"
  define c3 where "c3 = (if updated_at i \<noteq> [] \<and> recent (updated_at i)
                     then c2\<lparr>recent_activity := recent_activity c2 + 1\<rparr> else c2)"
  have step: "stats_loop recent (i # rest) c = stats_loop recent rest c3"
    by (simp add: c1 c2_def c3_def Let_def)
  have c3: "total c3 = total c"
    "n_open c3 + investigating c3 + resolved c3 + closed c3
       = Suc (n_open c + investigating c + resolved c + closed c)"
    "by_priority c3 = count_priority (priority i) (by_priority c)"
    using c1 by (simp_all add: c2_def c3_def)
  from Cons.IH [OF r, of c3] obtain c' where
    c': "stats_loop recent rest c3 = Inr c'" "total c' = total c3"
      "n_open c' + investigating c' + resolved c' + closed c'
         = n_open c3 + investigating c3 + resolved c3 + closed c3 + length rest"
      "(\<forall>i\<in>set rest. priority i \<in> set [''low'', ''medium'', ''high'', ''critical''])
          \<longrightarrow> sum_by_priority c' = sum_by_priority c3 + length rest"
    by blast
  have "(\<forall>j\<in>set (i # rest). priority j \<in> set [''low'', ''medium'', ''high'', ''critical''])
          \<longrightarrow> sum_by_priority c' = sum_by_priority c + length (i # rest)"
  proof
    assume a: "\<forall>j\<in>set (i # rest). priority j \<in> set [''low'', ''medium'', ''high'', ''critical'']"
    then have "priority i \<in> set [''low'', ''medium'', ''high'', ''critical'']"
      by simp
    from count_priority_known [OF this, of "by_priority c"]
    have "sum_by_priority c3 = Suc (sum_by_priority c)"
      by (simp add: sum_by_priority_def c3(3))
    with a c'(4) show "sum_by_priority c' = sum_by_priority c + length (i # rest)"
      by simp
  qed
  with step c' c3 show ?case
    by simp
qed

text \<open>
  Claim C7 (as amended). For every user whose stored issues all have one of the statuses
  \<open>open\<close>, \<open>investigating\<close>, \<open>resolved\<close>, \<open>closed\<close>, the statistics are returned, \<open>total\<close>
  is the number of the user's issues, and the four status counters add up to \<open>total\<close>; if
  moreover every priority is one of \<open>low\<close>, \<open>medium\<close>, \<open>high\<close>, \<open>critical\<close>, the four
  priority counters add up to \<open>total\<close> as well.
\<close>

theorem get_issue_statistics_consistent:
  assumes "\<forall>i\<in>set (map snd (get_user_issues s user_id None)).
             status i \<in> set [''open'', ''investigating'', ''resolved'', ''closed'']"
  shows "\<exists>c. get_issue_statistics recent s user_id = Inr c
           \<and> total c = length (get_user_issues s user_id None)
           \<and> n_open c + investigating c + resolved c + closed c = total c
           \<and> ((\<forall>i\<in>set (map snd (get_user_issues s user_id None)).
                  priority i \<in> set [''low'', ''medium'', ''high'', ''critical''])
                \<longrightarrow> sum_by_priority c = total c)"
proof -
  let ?c0 = "\<lparr>total = length (get_user_issues s user_id None), n_open = 0, investigating = 0,
              resolved = 0, closed = 0,
              by_priority = \<lparr>low = 0, medium = 0, high = 0, critical = 0\<rparr>,
              recent_activity = 0\<rparr>"
  from stats_loop_known [OF assms, of recent ?c0] obtain c where
    c: "stats_loop recent (map snd (get_user_issues s user_id None)) ?c0 = Inr c"
      "total c = total ?c0"
      "n_open c + investigating c + resolved c + closed c
         = n_open ?c0 + investigating ?c0 + resolved ?c0 + closed ?c0
           + length (map snd (get_user_issues s user_id None))"
      "(\<forall>i\<in>set (map snd (get_user_issues s user_id None)).
           priority i \<in> set [''low'', ''medium'', ''high'', ''critical''])
        \<longrightarrow> sum_by_priority c
            = sum_by_priority ?c0 + length (map snd (get_user_issues s user_id None))"
    by blast
  have "get_issue_statistics recent s user_id = Inr c"
    by (simp add: get_issue_statistics_def Let_def c(1))
  moreover from c(2) have "total c = length (get_user_issues s user_id None)"
    by simp
  moreover from c(2,3) have "n_open c + investigating c + resolved c + closed c = total c"
    by simp
  moreover from c(2,4) have "(\<forall>i\<in>set (map snd (get_user_issues s user_id None)).
                  priority i \<in> set [''low'', ''medium'', ''high'', ''critical''])
                \<longrightarrow> sum_by_priority c = total c"
    by (simp add: sum_by_priority_def)
  ultimately show ?thesis
    by blast
qed

theorem get_issue_statistics_consistent_witness:
  "get_issue_statistics (\<lambda>t. t = ''2025-03-02T08:00:00'')
     (sample_store
        [(''0a1b2c3d'', sample_issue ''0a1b2c3d'' ''Issue 1'' [] ''Issue 1 text'' ''open'' ''high''
                          ''2025-03-01T09:00:00''),
         (''1b2c3d4e'', sample_issue ''1b2c3d4e'' ''Issue 2'' [] ''Issue 2 text'' ''resolved''
                          ''low'' ''2025-03-02T08:00:00''),
         (''2c3d4e5f'', sample_issue ''2c3d4e5f'' ''Issue 3'' [] ''Issue 3 text'' ''open''
                          ''critical'' ''2025-03-02T08:00:00'')])
     ''U1''
   = Inr \<lparr>total = 3, n_open = 2, investigating = 0, resolved = 1, closed = 0,
          by_priority = \<lparr>low = 1, medium = 0, high = 1, critical = 1\<rparr>,
          recent_activity = 2\<rparr>"
proof -
  let ?iss = "[(''0a1b2c3d'', sample_issue ''0a1b2c3d'' ''Issue 1'' [] ''Issue 1 text'' ''open'' ''high''
                          ''2025-03-01T09:00:00''),
         (''1b2c3d4e'', sample_issue ''1b2c3d4e'' ''Issue 2'' [] ''Issue 2 text'' ''resolved''
                          ''low'' ''2025-03-02T08:00:00''),
         (''2c3d4e5f'', sample_issue ''2c3d4e5f'' ''Issue 3'' [] ''Issue 3 text'' ''open''
                          ''critical'' ''2025-03-02T08:00:00'')]"
  have g: "get_user_issues (sample_store ?iss) ''U1'' None = ?iss"
    by (simp add: get_user_issues_def get_user_settings_def sample_store_def)
  have h: "\<forall>i\<in>set (map snd (get_user_issues (sample_store ?iss) ''U1'' None)).
             status i \<in> set [''open'', ''investigating'', ''resolved'', ''closed'']"
    unfolding g by (simp add: sample_issue_def)
  from get_issue_statistics_consistent [OF h, of "\<lambda>t. t = ''2025-03-02T08:00:00''"]
  obtain c where c: "get_issue_statistics (\<lambda>t. t = ''2025-03-02T08:00:00'') (sample_store ?iss) ''U1''
      = Inr c" and "total c = 3"
    unfolding g by auto
  have "get_issue_statistics (\<lambda>t. t = ''2025-03-02T08:00:00'') (sample_store ?iss) ''U1''
     = Inr \<lparr>total = 3, n_open = 2, investigating = 0, resolved = 1, closed = 0,
          by_priority = \<lparr>low = 1, medium = 0, high = 1, critical = 1\<rparr>,
          recent_activity = 2\<rparr>"
    by code_simp
  with c show ?thesis
    by simp
qed

text \<open>The claim as stated, for every set of stored issues, fails: \<open>update_issue_status\<close>
  accepts any status and \<open>create_issue\<close> any priority, and the counting loop skips the ones
  it does not know. After one issue of priority \<open>urgent\<close> is moved to the status \<open>wontfix\<close>,
  \<open>total\<close> is 1 and all eight counters are 0.\<close>

theorem get_issue_statistics_unknown_status_counterexample:
  "get_issue_statistics (\<lambda>t. True)
     (snd (update_issue_status (''2025-03-02T08:00:00'', ''2025-03-02T08:00:00'')
             (sample_store
                [(''0a1b2c3d'', sample_issue ''0a1b2c3d'' ''Login page'' []
                    ''Login page has a problem'' ''open'' ''urgent'' ''2025-03-01T09:00:00'')])
             ''U1'' ''0a1b2c3d'' ''wontfix'' None))
     ''U1''
   = Inr \<lparr>total = 1, n_open = 0, investigating = 0, resolved = 0, closed = 0,
          by_priority = \<lparr>low = 0, medium = 0, high = 0, critical = 0\<rparr>,
          recent_activity = 1\<rparr>"
  by code_simp

section \<open>Properties of the search\<close>

lemma search_loop_filter:
  "search_loop q iss acc = acc @ filter (\<lambda>i. sublist q (searchable_text i)) (map snd iss)"
  by (induction iss arbitrary: acc) auto

lemma mset_sort_reverse: "mset (sort_reverse f xs) = mset xs"
  by (simp add: sort_reverse_def)

lemma sorted_sort_reverse: "sorted_wrt (\<lambda>a b. f a \<ge> f b) (sort_reverse f xs)"
proof -
  have "sorted (map f (sort_key f (rev xs)))"
    by (rule sorted_sort_key)
  then have "sorted_wrt (\<lambda>a b. f a \<le> f b) (sort_key f (rev xs))"
    by (simp add: sorted_map)
  then show ?thesis
    by (simp add: sort_reverse_def sorted_wrt_rev)
qed

lemma sort_reverse_stable:
  "filter (\<lambda>x. f x = k) (sort_reverse f xs) = filter (\<lambda>x. f x = k) xs"
proof -
  have "filter (\<lambda>x. f x = k) (sort_reverse f xs)
          = rev (filter (\<lambda>x. f x = k) (sort_key f (rev xs)))"
    by (simp add: sort_reverse_def rev_filter)
  also have "\<dots> = rev (filter (\<lambda>x. f x = k) (rev xs))"
    by (simp only: sort_key_stable)
  also have "\<dots> = filter (\<lambda>x. f x = k) xs"
    by (simp add: rev_filter)
  finally show ?thesis .
qed

text \<open>
  Claim C8 (as amended). For every user and query, \<open>search_issues\<close> returns exactly the
  issues of the user for which the lower-cased query is a substring of the lower-cased string
  made of title, description and original text joined by single spaces; they come ordered by
  \<open>updated_at\<close>, descending, and the issues with one and the same \<open>updated_at\<close> keep the
  order they have in the issue dictionary.
\<close>

theorem search_issues_space_joined:
  "(let matches = filter (\<lambda>i. sublist (lower query)
                              (lower (title i @ '' '' @ description i @ '' '' @ original_text i)))
                    (map snd (get_user_issues s user_id None));
        found = search_issues s user_id query
    in mset found = mset matches
       \<and> sorted_wrt (\<lambda>a b. updated_at a \<ge> updated_at b) found
       \<and> (\<forall>t. filter (\<lambda>i. updated_at i = t) found = filter (\<lambda>i. updated_at i = t) matches))"
  by (simp add: search_issues_def Let_def search_loop_filter searchable_text_def
      mset_sort_reverse sorted_sort_reverse sort_reverse_stable)

theorem search_issues_space_joined_witness:
  "(let i1 = sample_issue ''0a1b2c3d'' ''PCB thermal problem'' ''Overheating in power section''
               ''The PCB gets too hot during operation'' ''open'' ''medium'' ''2025-03-01T09:00:00'';
        i2 = sample_issue ''1b2c3d4e'' ''Software crash bug'' ''Application crashes on startup''
               ''Firmware crashes when loading config'' ''open'' ''medium'' ''2025-03-01T09:00:00'';
        i3 = sample_issue ''2c3d4e5f'' ''Short circuit'' ''Power section'' ''Short on the pcb''
               ''open'' ''high'' ''2025-03-01T09:00:00'';
        i4 = sample_issue ''3d4e5f6a'' ''Pcb layout issue'' [] ''Wrong footprint''
               ''open'' ''low'' ''2025-03-02T08:00:00'';
        s = sample_store [(''0a1b2c3d'', i1), (''1b2c3d4e'', i2), (''2c3d4e5f'', i3),
                          (''3d4e5f6a'', i4)]
    in search_issues s ''U1'' ''PCB'' = [i4, i1, i3]
       \<and> mset (search_issues s ''U1'' ''PCB'') = mset [i1, i3, i4]
       \<and> filter (\<lambda>i. updated_at i = ''2025-03-01T09:00:00'') (search_issues s ''U1'' ''PCB'')
           = [i1, i3])"
proof -
  define i1 where "i1 = sample_issue ''0a1b2c3d'' ''PCB thermal problem'' ''Overheating in power section''
               ''The PCB gets too hot during operation'' ''open'' ''medium'' ''2025-03-01T09:00:00''"
  define i2 where "i2 = sample_issue ''1b2c3d4e'' ''Software crash bug'' ''Application crashes on startup''
               ''Firmware crashes when loading config'' ''open'' ''medium'' ''2025-03-01T09:00:00''"
  define i3 where "i3 = sample_issue ''2c3d4e5f'' ''Short circuit'' ''Power section'' ''Short on the pcb''
               ''open'' ''high'' ''2025-03-01T09:00:00''"
  define i4 where "i4 = sample_issue ''3d4e5f6a'' ''Pcb layout issue'' [] ''Wrong footprint''
               ''open'' ''low'' ''2025-03-02T08:00:00''"
  define s where "s = sample_store [(''0a1b2c3d'', i1), (''1b2c3d4e'', i2), (''2c3d4e5f'', i3),
                          (''3d4e5f6a'', i4)]"
  have m: "filter (\<lambda>i. sublist (lower ''PCB'')
                              (lower (title i @ '' '' @ description i @ '' '' @ original_text i)))
                    (map snd (get_user_issues s ''U1'' None)) = [i1, i3, i4]"
    unfolding s_def i1_def i2_def i3_def i4_def by code_simp
  have u: "updated_at i1 = ''2025-03-01T09:00:00''" "updated_at i3 = ''2025-03-01T09:00:00''"
    "updated_at i4 = ''2025-03-02T08:00:00''"
    by (simp_all add: i1_def i3_def i4_def sample_issue_def)
  have e: "search_issues s ''U1'' ''PCB'' = [i4, i1, i3]"
    unfolding s_def i1_def i2_def i3_def i4_def by code_simp
  from search_issues_space_joined [of "''PCB''" s "''U1''"]
  have "mset (search_issues s ''U1'' ''PCB'') = mset [i1, i3, i4]"
    and "filter (\<lambda>i. updated_at i = ''2025-03-01T09:00:00'') (search_issues s ''U1'' ''PCB'')
           = filter (\<lambda>i. updated_at i = ''2025-03-01T09:00:00'') [i1, i3, i4]"
    unfolding Let_def m by blast+
  with e u show ?thesis
    unfolding Let_def i1_def [symmetric] i2_def [symmetric] i3_def [symmetric] i4_def [symmetric]
      s_def [symmetric]
    by simp
qed

text \<open>The claim as stated, with the plain concatenation of the three fields, fails in both
  directions: a query that runs over the space between two fields finds the issue though
  neither the concatenation nor any of the fields contains it, and a query that runs over the
  seam of the concatenation finds nothing.\<close>

theorem search_issues_plain_concatenation_counterexample:
  "(let i = sample_issue ''0a1b2c3d'' ''PCB thermal problem'' ''Overheating in power section''
              ''The PCB gets too hot during operation'' ''open'' ''medium'' ''2025-03-01T09:00:00'';
        s = sample_store [(''0a1b2c3d'', i)]
    in search_issues s ''U1'' ''problem overheating'' = [i]
       \<and> \<not> sublist (lower ''problem overheating'')
              (lower (title i @ description i @ original_text i))
       \<and> \<not> sublist (lower ''problem overheating'') (lower (title i))
       \<and> \<not> sublist (lower ''problem overheating'') (lower (description i))
       \<and> \<not> sublist (lower ''problem overheating'') (lower (original_text i))
       \<and> search_issues s ''U1'' ''problemoverheating'' = []
       \<and> sublist (lower ''problemoverheating'')
            (lower (title i @ description i @ original_text i)))"
  by code_simp

section \<open>Properties of the issue lifecycle\<close>

lemma get_issue_cases:
  "get_issue s user_id iid =
     (case map_of (settings s) user_id of
        None \<Rightarrow> None
      | Some u \<Rightarrow> (case issues u of None \<Rightarrow> None | Some iss \<Rightarrow> map_of iss iid))"
  by (simp add: get_issue_def get_user_issues_def get_user_settings_def empty_user_def
      split: option.splits)

lemma create_issue_stored:
  "get_issue (snd (create_issue md5 clock s user_id data)) user_id
     (fst (create_issue md5 clock s user_id data))
   = Some \<lparr>issue_id = fst (create_issue md5 clock s user_id data),
           title = get_str (d_title data),
           description = get_str (d_description data),
           original_text = get_str (d_original_text data),
           channel = get_str (d_channel data),
           reporter = get_str (d_reporter data),
           timestamp = get_str (d_timestamp data),
           message_ts = get_str (d_message_ts data),
           status = (case d_status data of None \<Rightarrow> ''open'' | Some x \<Rightarrow> x),
           priority = (case d_priority data of None \<Rightarrow> ''medium'' | Some x \<Rightarrow> x),
           tags = (case d_tags data of None \<Rightarrow> [] | Some x \<Rightarrow> x),
           related_messages = [],
           status_history = [\<lparr>h_status = ''open'', h_timestamp = fst clock, h_user = user_id,
                               h_previous_status = None\<rparr>],
           created_at = fst (snd clock),
           updated_at = snd (snd clock)\<rparr>"
  by (cases clock)
     (simp add: create_issue_def get_issue_cases Let_def settings_save_settings update_conv')

lemma update_issue_status_present:
  assumes "get_issue s user_id iid = Some i"
  shows "fst (update_issue_status clock s user_id iid new_status updated_by)"
    and "get_issue (snd (update_issue_status clock s user_id iid new_status updated_by)) user_id iid
         = Some (i\<lparr>status := new_status, updated_at := fst clock,
                    status_history := status_history i @
                      [\<lparr>h_status = new_status, h_timestamp = snd clock,
                        h_user = or_user updated_by user_id,
                        h_previous_status = Some (status i)\<rparr>]\<rparr>)"
  using assms
  by (auto simp: get_issue_cases update_issue_status_def Let_def settings_save_settings
      update_conv' split: option.splits)

lemma update_issue_status_success:
  assumes "fst (update_issue_status clock s user_id iid new_status updated_by)"
  shows "\<exists>i. get_issue s user_id iid = Some i"
proof (cases "get_issue s user_id iid")
  case None
  with update_issue_status_absent [OF None, of clock new_status updated_by] assms
  show ?thesis by simp
next
  case (Some i)
  then show ?thesis by blast
qed

lemma run_updates_history:
  assumes "get_issue s user_id iid = Some i"
  shows "\<exists>i'. get_issue (snd (run_updates s user_id iid calls)) user_id iid = Some i'
           \<and> fst (run_updates s user_id iid calls) = replicate (length calls) True
           \<and> status_history i' = status_history i @
                map (\<lambda>(previous, clock, new_status, updated_by).
                       \<lparr>h_status = new_status, h_timestamp = snd clock,
                        h_user = or_user updated_by user_id,
                        h_previous_status = Some previous\<rparr>)
                  (zip (status i # map (\<lambda>(clock, new_status, updated_by). new_status) calls) calls)"
  using assms
proof (induction calls arbitrary: s i)
  case Nil
  then show ?case by simp
next
  case (Cons call rest)
  obtain clock new_status updated_by where call: "call = (clock, new_status, updated_by)"
    by (cases call) auto
  define s1 where "s1 = snd (update_issue_status clock s user_id iid new_status updated_by)"
  define i1 where "i1 = i\<lparr>status := new_status, updated_at := fst clock,
                    status_history := status_history i @
                      [\<lparr>h_status = new_status, h_timestamp = snd clock,
                        h_user = or_user updated_by user_id,
                        h_previous_status = Some (status i)\<rparr>]\<rparr>"
  from update_issue_status_present [OF Cons.prems, of clock new_status updated_by]
  have ok: "fst (update_issue_status clock s user_id iid new_status updated_by)"
    and g1: "get_issue s1 user_id iid = Some i1"
    by (simp_all add: s1_def i1_def)
  from Cons.IH [OF g1] obtain i' where
    i': "get_issue (snd (run_updates s1 user_id iid rest)) user_id iid = Some i'"
      "fst (run_updates s1 user_id iid rest) = replicate (length rest) True"
      "status_history i' = status_history i1 @
                map (\<lambda>(previous, clock, new_status, updated_by).
                       \<lparr>h_status = new_status, h_timestamp = snd clock,
                        h_user = or_user updated_by user_id,
                        h_previous_status = Some previous\<rparr>)
                  (zip (status i1 # map (\<lambda>(clock, new_status, updated_by). new_status) rest) rest)"
    by blast
  have r: "run_updates s user_id iid (call # rest)
             = (True # fst (run_updates s1 user_id iid rest), snd (run_updates s1 user_id iid rest))"
    using ok by (auto simp: call s1_def split: prod.splits)
  from i' show ?case
    unfolding r by (simp add: i1_def call)
qed

text \<open>
  Claim C1 (as amended). For every user and every candidate, \<open>create_issue\<close> stores an issue
  whose status is the candidate's \<open>status\<close> entry if it has one and \<open>open\<close> otherwise (as
  for every candidate of the detector), and whose history is the single entry with status
  \<open>open\<close> and the creating user. Every call of a following run of \<open>update_issue_status\<close>
  on that issue succeeds and appends one entry: after \<open>N\<close> calls the history has \<open>N + 1\<close>
  entries, and the entry of each call carries its new status and, as \<open>previous_status\<close>,
  the status the issue had just before the call.
\<close>

theorem create_then_update_history:
  assumes "create_issue md5 clock0 s user_id data = (iid, s0)"
    and "run_updates s0 user_id iid calls = (oks, sN)"
  shows "\<exists>i0 iN.
           get_issue s0 user_id iid = Some i0
           \<and> status i0 = (case d_status data of None \<Rightarrow> ''open'' | Some x \<Rightarrow> x)
           \<and> status_history i0 = [\<lparr>h_status = ''open'', h_timestamp = fst clock0,
                                    h_user = user_id, h_previous_status = None\<rparr>]
           \<and> oks = replicate (length calls) True
           \<and> get_issue sN user_id iid = Some iN
           \<and> length (status_history iN) = length calls + 1
           \<and> status_history iN = status_history i0 @
                map (\<lambda>(previous, clock, new_status, updated_by).
                       \<lparr>h_status = new_status, h_timestamp = snd clock,
                        h_user = or_user updated_by user_id,
                        h_previous_status = Some previous\<rparr>)
                  (zip (status i0 # map (\<lambda>(clock, new_status, updated_by). new_status) calls)
                     calls)"
proof -
  from create_issue_stored [of md5 clock0 s user_id data] assms(1)
  obtain i0 where i0: "get_issue s0 user_id iid = Some i0"
    "status i0 = (case d_status data of None \<Rightarrow> ''open'' | Some x \<Rightarrow> x)"
    "status_history i0 = [\<lparr>h_status = ''open'', h_timestamp = fst clock0,
                            h_user = user_id, h_previous_status = None\<rparr>]"
    by simp
  from run_updates_history [OF i0(1), of calls] assms(2)
  obtain iN where iN: "get_issue sN user_id iid = Some iN"
    "oks = replicate (length calls) True"
    "status_history iN = status_history i0 @
                map (\<lambda>(previous, clock, new_status, updated_by).
                       \<lparr>h_status = new_status, h_timestamp = snd clock,
                        h_user = or_user updated_by user_id,
                        h_previous_status = Some previous\<rparr>)
                  (zip (status i0 # map (\<lambda>(clock, new_status, updated_by). new_status) calls)
                     calls)"
    by auto
  from iN(3) i0(3) have "length (status_history iN) = length calls + 1"
    by simp
  with i0 iN show ?thesis
    by blast
qed

theorem create_then_update_history_witness:
  "\<forall>md5.
     (let data = \<lparr>d_title = Some ''PCB gets too hot during operation'', d_description = None,
                  d_original_text = Some ''The PCB gets too hot during operation'',
                  d_channel = Some ''hardware'', d_reporter = None,
                  d_timestamp = Some ''1000000000'', d_message_ts = None, d_status = None,
                  d_priority = None, d_tags = None, d_types = None\<rparr>;
          (iid, s0) = create_issue md5
                        (''2025-03-01T09:00:00'', ''2025-03-01T09:00:01'', ''2025-03-01T09:00:02'')
                        \<lparr>settings = [], file_content = None, writable = True\<rparr> ''U12345TEST'' data;
          (oks, sN) = run_updates s0 ''U12345TEST'' iid
                        [((''2025-03-01T10:00:00'', ''2025-03-01T10:00:01''), ''investigating'',
                          Some ''other_user''),
                         ((''2025-03-01T11:00:00'', ''2025-03-01T11:00:01''), ''resolved'', None)]
      in map_option status (get_issue s0 ''U12345TEST'' iid) = Some ''open''
         \<and> oks = [True, True]
         \<and> map_option status_history (get_issue sN ''U12345TEST'' iid)
             = Some [\<lparr>h_status = ''open'', h_timestamp = ''2025-03-01T09:00:00'',
                      h_user = ''U12345TEST'', h_previous_status = None\<rparr>,
                     \<lparr>h_status = ''investigating'', h_timestamp = ''2025-03-01T10:00:01'',
                      h_user = ''other_user'', h_previous_status = Some ''open''\<rparr>,
                     \<lparr>h_status = ''resolved'', h_timestamp = ''2025-03-01T11:00:01'',
                      h_user = ''U12345TEST'', h_previous_status = Some ''investigating''\<rparr>])"
proof
  fix md5 :: "string \<Rightarrow> 128 word"
  define data where "data = \<lparr>d_title = Some ''PCB gets too hot during operation'',
                  d_description = None,
                  d_original_text = Some ''The PCB gets too hot during operation'',
                  d_channel = Some ''hardware'', d_reporter = None,
                  d_timestamp = Some ''1000000000'', d_message_ts = None, d_status = None,
                  d_priority = None, d_tags = None, d_types = None\<rparr>"
  define calls :: "((string \<times> string) \<times> string \<times> string option) list" where
    "calls = [((''2025-03-01T10:00:00'', ''2025-03-01T10:00:01''), ''investigating'',
                          Some ''other_user''),
                         ((''2025-03-01T11:00:00'', ''2025-03-01T11:00:01''), ''resolved'', None)]"
  obtain iid s0 where c: "create_issue md5
                        (''2025-03-01T09:00:00'', ''2025-03-01T09:00:01'', ''2025-03-01T09:00:02'')
                        \<lparr>settings = [], file_content = None, writable = True\<rparr> ''U12345TEST'' data
                      = (iid, s0)"
    by (cases "create_issue md5
                        (''2025-03-01T09:00:00'', ''2025-03-01T09:00:01'', ''2025-03-01T09:00:02'')
                        \<lparr>settings = [], file_content = None, writable = True\<rparr> ''U12345TEST'' data")
  obtain oks sN where r: "run_updates s0 ''U12345TEST'' iid calls = (oks, sN)"
    by (cases "run_updates s0 ''U12345TEST'' iid calls")
  from create_then_update_history [OF c r] obtain i0 iN where
    h: "get_issue s0 ''U12345TEST'' iid = Some i0"
      "status i0 = (case d_status data of None \<Rightarrow> ''open'' | Some x \<Rightarrow> x)"
      "status_history i0 = [\<lparr>h_status = ''open'', h_timestamp = ''2025-03-01T09:00:00'',
                                    h_user = ''U12345TEST'', h_previous_status = None\<rparr>]"
      "oks = replicate (length calls) True"
      "get_issue sN ''U12345TEST'' iid = Some iN"
      "status_history iN = status_history i0 @
                map (\<lambda>(previous, clock, new_status, updated_by).
                       \<lparr>h_status = new_status, h_timestamp = snd clock,
                        h_user = or_user updated_by ''U12345TEST'',
                        h_previous_status = Some previous\<rparr>)
                  (zip (status i0 # map (\<lambda>(clock, new_status, updated_by). new_status) calls)
                     calls)"
    by auto
  have s: "status i0 = ''open''"
    using h(2) by (simp add: data_def)
  have o: "oks = [True, True]"
    using h(4) by (simp add: calls_def)
  have l: "status_history iN
             = [\<lparr>h_status = ''open'', h_timestamp = ''2025-03-01T09:00:00'',
                      h_user = ''U12345TEST'', h_previous_status = None\<rparr>,
                     \<lparr>h_status = ''investigating'', h_timestamp = ''2025-03-01T10:00:01'',
                      h_user = ''other_user'', h_previous_status = Some ''open''\<rparr>,
                     \<lparr>h_status = ''resolved'', h_timestamp = ''2025-03-01T11:00:01'',
                      h_user = ''U12345TEST'', h_previous_status = Some ''investigating''\<rparr>]"
    unfolding h(6) h(3) s by (simp add: calls_def or_user_def)
  from h(1) h(5) s o l c r
  show "let data = \<lparr>d_title = Some ''PCB gets too hot during operation'', d_description = None,
                  d_original_text = Some ''The PCB gets too hot during operation'',
                  d_channel = Some ''hardware'', d_reporter = None,
                  d_timestamp = Some ''1000000000'', d_message_ts = None, d_status = None,
                  d_priority = None, d_tags = None, d_types = None\<rparr>;
          (iid, s0) = create_issue md5
                        (''2025-03-01T09:00:00'', ''2025-03-01T09:00:01'', ''2025-03-01T09:00:02'')
                        \<lparr>settings = [], file_content = None, writable = True\<rparr> ''U12345TEST'' data;
          (oks, sN) = run_updates s0 ''U12345TEST'' iid
                        [((''2025-03-01T10:00:00'', ''2025-03-01T10:00:01''), ''investigating'',
                          Some ''other_user''),
                         ((''2025-03-01T11:00:00'', ''2025-03-01T11:00:01''), ''resolved'', None)]
      in map_option status (get_issue s0 ''U12345TEST'' iid) = Some ''open''
         \<and> oks = [True, True]
         \<and> map_option status_history (get_issue sN ''U12345TEST'' iid)
             = Some [\<lparr>h_status = ''open'', h_timestamp = ''2025-03-01T09:00:00'',
                      h_user = ''U12345TEST'', h_previous_status = None\<rparr>,
                     \<lparr>h_status = ''investigating'', h_timestamp = ''2025-03-01T10:00:01'',
                      h_user = ''other_user'', h_previous_status = Some ''open''\<rparr>,
                     \<lparr>h_status = ''resolved'', h_timestamp = ''2025-03-01T11:00:01'',
                      h_user = ''U12345TEST'', h_previous_status = Some ''investigating''\<rparr>]"
    unfolding Let_def data_def [symmetric] calls_def [symmetric] by simp
qed

text \<open>The claim as stated, for every candidate, fails: \<open>create_issue\<close> reads the status
  with \<open>issue_data.get("status", "open")\<close>, so a candidate that carries the status
  \<open>resolved\<close> is stored as \<open>resolved\<close>, whatever the digest function.\<close>

theorem create_issue_status_from_candidate_counterexample:
  "\<forall>md5.
     (let data = \<lparr>d_title = Some ''Bug 2'', d_description = None,
                  d_original_text = Some ''Second bug'', d_channel = Some ''ch2'',
                  d_reporter = Some ''user2'', d_timestamp = Some ''2000000000'',
                  d_message_ts = None, d_status = Some ''resolved'', d_priority = None,
                  d_tags = None, d_types = None\<rparr>;
          (iid, s0) = create_issue md5
                        (''2025-03-01T09:00:00'', ''2025-03-01T09:00:01'', ''2025-03-01T09:00:02'')
                        \<lparr>settings = [], file_content = None, writable = True\<rparr> ''U12345TEST'' data
      in map_option status (get_issue s0 ''U12345TEST'' iid) = Some ''resolved''
         \<and> map_option status (get_issue s0 ''U12345TEST'' iid) \<noteq> Some ''open'')"
proof
  fix md5 :: "string \<Rightarrow> 128 word"
  note g = create_issue_stored [of md5
    "(''2025-03-01T09:00:00'', ''2025-03-01T09:00:01'', ''2025-03-01T09:00:02'')"
    "\<lparr>settings = [], file_content = None, writable = True\<rparr>" "''U12345TEST''"
    "\<lparr>d_title = Some ''Bug 2'', d_description = None,
                  d_original_text = Some ''Second bug'', d_channel = Some ''ch2'',
                  d_reporter = Some ''user2'', d_timestamp = Some ''2000000000'',
                  d_message_ts = None, d_status = Some ''resolved'', d_priority = None,
                  d_tags = None, d_types = None\<rparr>"]
  show "let data = \<lparr>d_title = Some ''Bug 2'', d_description = None,
                  d_original_text = Some ''Second bug'', d_channel = Some ''ch2'',
                  d_reporter = Some ''user2'', d_timestamp = Some ''2000000000'',
                  d_message_ts = None, d_status = Some ''resolved'', d_priority = None,
                  d_tags = None, d_types = None\<rparr>;
          (iid, s0) = create_issue md5
                        (''2025-03-01T09:00:00'', ''2025-03-01T09:00:01'', ''2025-03-01T09:00:02'')
                        \<lparr>settings = [], file_content = None, writable = True\<rparr> ''U12345TEST'' data
      in map_option status (get_issue s0 ''U12345TEST'' iid) = Some ''resolved''
         \<and> map_option status (get_issue s0 ''U12345TEST'' iid) \<noteq> Some ''open''"
    unfolding Let_def split_beta g by simp
qed

end
